theory Spec2Isabelle
  imports Main
begin

section \<open>Go errors and Terraform diagnostics\<close>

text \<open>
  A Go \<open>error\<close> value that is not nil. The handlers distinguish one dynamic type only,
  the client library's \<open>*errors.NotFound\<close>; every other dynamic type is \<open>OtherError\<close>.
  The string is what \<open>err.Error()\<close> returns.
\<close>

datatype go_error = NotFound string | OtherError string

fun error_message :: "go_error \<Rightarrow> string" where
  "error_message (NotFound m) = m"
| "error_message (OtherError m) = m"

text \<open>
  A call that returns normally or panics (a nil pointer dereference is the only panic the
  handlers below can raise).
\<close>

datatype 'a go_result = Panic | Return 'a

datatype severity = Error | Warning

record Diagnostic =
  Severity :: severity
  Summary :: string
  Detail :: string

text \<open>\<open>diag.Diagnostics\<close> is a slice; the nil slice and the empty slice are both \<open>[]\<close>.\<close>

type_synonym Diagnostics = "Diagnostic list"

text \<open>
  \<open>diag.FromErr\<close> of the Terraform SDK, for an error that is not nil (the only way
  the handlers call it): one diagnostic of severity Error whose summary is the error's
  message.
\<close>

definition FromErr :: "go_error \<Rightarrow> Diagnostics" where
  "FromErr err = [\<lparr>Severity = Error, Summary = error_message err, Detail = ''''\<rparr>]"

section \<open>The resource schema and the resource data\<close>

datatype ValueType = TypeInt | TypeString | TypeBool

datatype attr_value = IntV int | StringV string | BoolV bool

fun type_of_value :: "attr_value \<Rightarrow> ValueType" where
  "type_of_value (IntV _) = TypeInt"
| "type_of_value (StringV _) = TypeString"
| "type_of_value (BoolV _) = TypeBool"

record SchemaEntry =
  Type :: ValueType
  Required :: bool
  Optional :: bool
  Computed :: bool
  ForceNew :: bool
  Description :: string

text \<open>The \<open>Schema\<close> map of the synthetics private location resource, key by key.\<close>

definition privateLocationSchema :: "(string \<times> SchemaEntry) list" where
  "privateLocationSchema =
    [(''account_id'',
        \<lparr>Type = TypeInt, Required = False, Optional = True, Computed = True, ForceNew = False,
         Description = ''The ID of the account in New Relic.''\<rparr>),
     (''description'',
        \<lparr>Type = TypeString, Required = True, Optional = False, Computed = False, ForceNew = False,
         Description = ''The private location description.''\<rparr>),
     (''name'',
        \<lparr>Type = TypeString, Required = True, Optional = False, Computed = False, ForceNew = True,
         Description = ''The name of the private location.''\<rparr>),
     (''verified_script_execution'',
        \<lparr>Type = TypeBool, Required = True, Optional = False, Computed = False, ForceNew = False,
         Description = ''The private location requires a password to edit if value is true.''\<rparr>),
     (''domain_id'',
        \<lparr>Type = TypeString, Required = False, Optional = True, Computed = False, ForceNew = False,
         Description = ''The private location globally unique identifier.''\<rparr>),
     (''guid'',
        \<lparr>Type = TypeString, Required = False, Optional = True, Computed = False, ForceNew = False,
         Description = ''The guid of the entity to tag.''\<rparr>),
     (''key'',
        \<lparr>Type = TypeString, Required = False, Optional = True, Computed = False, ForceNew = False,
         Description = ''The private locations key.''\<rparr>),
     (''location_id'',
        \<lparr>Type = TypeString, Required = False, Optional = True, Computed = False, ForceNew = False,
         Description = ''An alternate identifier based on name.''\<rparr>)]"

text \<open>
  \<open>schema.ResourceData\<close>: the resource ID and the attribute values, under the schema
  that the resource registers.
\<close>

record ResourceData =
  Id :: string
  attrs :: "string \<rightharpoonup> attr_value"
  data_schema :: "(string \<times> SchemaEntry) list"

definition SetId :: "string \<Rightarrow> ResourceData \<Rightarrow> ResourceData" where
  "SetId v d = d\<lparr>Id := v\<rparr>"

text \<open>
  \<open>d.Set(key, value)\<close>: the SDK stores the value when the key is an attribute of the
  schema of the value's type and returns an error otherwise. Every call in the handlers
  discards that error (\<open>_ = d.Set(...)\<close>), so a refused call leaves the data as it was.
\<close>

definition Set_attr :: "string \<Rightarrow> attr_value \<Rightarrow> ResourceData \<Rightarrow> ResourceData" where
  "Set_attr k v d =
    (case map_of (data_schema d) k of
       None \<Rightarrow> d
     | Some e \<Rightarrow> if Type e = type_of_value v then d\<lparr>attrs := (attrs d)(k \<mapsto> v)\<rparr> else d)"

text \<open>
  \<open>d.Get(key).(string)\<close> and \<open>d.Get(key).(bool)\<close>: the attribute's value, the zero
  value of the type when it is not set.
\<close>

definition Get_string :: "ResourceData \<Rightarrow> string \<Rightarrow> string" where
  "Get_string d k = (case attrs d k of Some (StringV s) \<Rightarrow> s | _ \<Rightarrow> '''')"

definition Get_bool :: "ResourceData \<Rightarrow> string \<Rightarrow> bool" where
  "Get_bool d k = (case attrs d k of Some (BoolV b) \<Rightarrow> b | _ \<Rightarrow> False)"

section \<open>The API client\<close>

text \<open>
  The client library's result types, with the fields the handlers read. A Go call
  returns the pair \<open>(res, err)\<close>: a pointer that may be nil and an error that may be nil.
\<close>

record SyntheticsPrivateLocationMutationError =
  ErrDescription :: string
  ErrType :: string

record SyntheticsPrivateLocationMutationResult =
  DomainId :: string
  Errors :: "SyntheticsPrivateLocationMutationError list"
  GUID :: string
  Key :: string
  LocationId :: string

record SyntheticsPrivateLocationDeleteResult =
  DeleteErrors :: "SyntheticsPrivateLocationMutationError list"

text \<open>
  The dynamic type behind \<open>entities.EntityInterface\<close>: the nil interface, a
  \<open>*entities.GenericEntityOutline\<close> with its GUID and name, or any other entity type.
\<close>

datatype EntityInterface =
    NilEntity
  | GenericEntityOutline string string
  | OtherEntity string

record SyntheticsClient =
  SyntheticsCreatePrivateLocationWithContext ::
    "int \<Rightarrow> string \<Rightarrow> string \<Rightarrow> bool \<Rightarrow>
       SyntheticsPrivateLocationMutationResult option \<times> go_error option"
  SyntheticsUpdatePrivateLocation ::
    "string \<Rightarrow> string \<Rightarrow> bool \<Rightarrow>
       SyntheticsPrivateLocationMutationResult option \<times> go_error option"
  SyntheticsDeletePrivateLocationWithContext ::
    "string \<Rightarrow> SyntheticsPrivateLocationDeleteResult option \<times> go_error option"

record EntitiesClient =
  GetEntity :: "string \<Rightarrow> EntityInterface option \<times> go_error option"

record NewRelic =
  Synthetics :: SyntheticsClient
  Entities :: EntitiesClient

record ProviderConfig =
  NewClient :: NewRelic
  AccountID :: int

section \<open>The handlers of the synthetics private location resource\<close>

text \<open>
  Each handler takes the provider's configuration (\<open>meta\<close>) and the resource data,
  and returns the data as it leaves it together with its diagnostics. The context
  argument and the log line of Read have no part in either and are left out. An entity
  behind the interface is taken to be a pointer that is not nil, as the client library
  builds it.
\<close>

text \<open>
  The loop \<open>for _, err := range errs { diags = append(diags, diag.Diagnostic{...}) }\<close>
  that Create, Update and Delete share.
\<close>

fun appendErrors ::
  "Diagnostics \<Rightarrow> SyntheticsPrivateLocationMutationError list \<Rightarrow> Diagnostics" where
  "appendErrors diags [] = diags"
| "appendErrors diags (err # errs) =
     appendErrors (diags @ [\<lparr>Severity = Error, Summary = ErrDescription err, Detail = ''''\<rparr>]) errs"

text \<open>
  \<open>selectAccountID\<close> is a helper of the provider that is not among the sources; the
  handler takes it as a parameter.
\<close>

definition resourceNewRelicSyntheticsPrivateLocationCreate ::
  "(ProviderConfig \<Rightarrow> ResourceData \<Rightarrow> int) \<Rightarrow> ProviderConfig \<Rightarrow> ResourceData \<Rightarrow>
     ResourceData \<times> Diagnostics go_result" where
  "resourceNewRelicSyntheticsPrivateLocationCreate selectAccountID providerConfig d =
    (let client = NewClient providerConfig;
         accountID = selectAccountID providerConfig d;
         diags = [];
         description = Get_string d ''description'';
         name = Get_string d ''name'';
         verifiedScriptExecution = Get_bool d ''verified_script_execution''
     in case SyntheticsCreatePrivateLocationWithContext (Synthetics client)
               accountID description name verifiedScriptExecution of
          (_, Some err) \<Rightarrow> (d, Return (FromErr err))
        | (None, None) \<Rightarrow> (d, Panic)
        | (Some res, None) \<Rightarrow>
            (let diags = (if length (Errors res) > 0 then appendErrors diags (Errors res)
                          else diags)
             in if length diags > 0 then (d, Return diags)
                else (Set_attr ''guid'' (StringV (GUID res))
                       (Set_attr ''location_id'' (StringV (LocationId res))
                         (Set_attr ''key'' (StringV (Key res))
                           (Set_attr ''domain_id'' (StringV (DomainId res))
                             (SetId (GUID res) d)))),
                      Return [])))"

text \<open>
  \<open>setCommonSyntheticsPrivateLocationAttributes\<close> dereferences the pointer it is given
  and switches on the entity's dynamic type; only a generic entity outline sets anything.
\<close>

fun setCommonSyntheticsPrivateLocationAttributes ::
  "EntityInterface option \<Rightarrow> ResourceData \<Rightarrow> ResourceData go_result" where
  "setCommonSyntheticsPrivateLocationAttributes None d = Panic"
| "setCommonSyntheticsPrivateLocationAttributes (Some (GenericEntityOutline guid name)) d =
     Return (Set_attr ''name'' (StringV name) (Set_attr ''guid'' (StringV guid) d))"
| "setCommonSyntheticsPrivateLocationAttributes (Some _) d = Return d"

definition resourceNewRelicSyntheticsPrivateLocationRead ::
  "ProviderConfig \<Rightarrow> ResourceData \<Rightarrow> ResourceData \<times> Diagnostics go_result" where
  "resourceNewRelicSyntheticsPrivateLocationRead meta d =
    (let client = NewClient meta;
         guid = Id d
     in case GetEntity (Entities client) guid of
          (_, Some err) \<Rightarrow>
            (case err of
               NotFound _ \<Rightarrow> (SetId '''' d, Return [])
             | OtherError _ \<Rightarrow> (d, Return (FromErr err)))
        | (resp, None) \<Rightarrow>
            (case setCommonSyntheticsPrivateLocationAttributes resp d of
               Panic \<Rightarrow> (d, Panic)
             | Return d' \<Rightarrow> (d', Return [])))"

definition resourceNewRelicSyntheticsPrivateLocationUpdate ::
  "ProviderConfig \<Rightarrow> ResourceData \<Rightarrow> ResourceData \<times> Diagnostics go_result" where
  "resourceNewRelicSyntheticsPrivateLocationUpdate providerConfig d =
    (let client = NewClient providerConfig;
         diags = [];
         description = Get_string d ''description'';
         guid = Id d;
         verifiedScriptExecution = Get_bool d ''verified_script_execution''
     in case SyntheticsUpdatePrivateLocation (Synthetics client)
               description guid verifiedScriptExecution of
          (_, Some err) \<Rightarrow> (d, Return (FromErr err))
        | (None, None) \<Rightarrow> (d, Panic)
        | (Some res, None) \<Rightarrow>
            (let diags = (if length (Errors res) > 0 then appendErrors diags (Errors res)
                          else diags)
             in if length diags > 0 then (d, Return diags) else (d, Return [])))"

definition resourceNewRelicSyntheticsPrivateLocationDelete ::
  "ProviderConfig \<Rightarrow> ResourceData \<Rightarrow> ResourceData \<times> Diagnostics go_result" where
  "resourceNewRelicSyntheticsPrivateLocationDelete providerConfig d =
    (let client = NewClient providerConfig;
         diags = [];
         guid = Id d
     in case SyntheticsDeletePrivateLocationWithContext (Synthetics client) guid of
          (_, Some err) \<Rightarrow> (d, Return (FromErr err))
        | (res, None) \<Rightarrow>
            (let diags = (case res of
                            None \<Rightarrow> diags
                          | Some r \<Rightarrow> appendErrors diags (DeleteErrors r))
             in if length diags > 0 then (d, Return diags)
                else (SetId '''' d, Return [])))"

section \<open>The resource definition and its importer\<close>

record ResourceImporter =
  StateContext :: "ProviderConfig \<Rightarrow> ResourceData \<Rightarrow> ResourceData list \<times> go_error option"

record Resource =
  CreateContext :: "ProviderConfig \<Rightarrow> ResourceData \<Rightarrow> ResourceData \<times> Diagnostics go_result"
  ReadContext :: "ProviderConfig \<Rightarrow> ResourceData \<Rightarrow> ResourceData \<times> Diagnostics go_result"
  UpdateContext :: "ProviderConfig \<Rightarrow> ResourceData \<Rightarrow> ResourceData \<times> Diagnostics go_result"
  DeleteContext :: "ProviderConfig \<Rightarrow> ResourceData \<Rightarrow> ResourceData \<times> Diagnostics go_result"
  Importer :: ResourceImporter
  Schema :: "(string \<times> SchemaEntry) list"

text \<open>
  \<open>schema.ImportStatePassthroughContext\<close> of the SDK: the data it is given, as the only
  imported state, and no error.
\<close>

definition ImportStatePassthroughContext ::
  "ProviderConfig \<Rightarrow> ResourceData \<Rightarrow> ResourceData list \<times> go_error option" where
  "ImportStatePassthroughContext meta d = ([d], None)"

definition resourceNewRelicSyntheticsPrivateLocation ::
  "(ProviderConfig \<Rightarrow> ResourceData \<Rightarrow> int) \<Rightarrow> Resource" where
  "resourceNewRelicSyntheticsPrivateLocation selectAccountID =
    \<lparr>CreateContext = resourceNewRelicSyntheticsPrivateLocationCreate selectAccountID,
     ReadContext = resourceNewRelicSyntheticsPrivateLocationRead,
     UpdateContext = resourceNewRelicSyntheticsPrivateLocationUpdate,
     DeleteContext = resourceNewRelicSyntheticsPrivateLocationDelete,
     Importer = \<lparr>StateContext = ImportStatePassthroughContext\<rparr>,
     Schema = privateLocationSchema\<rparr>"

text \<open>
  How the SDK imports a resource by ID: a fresh \<open>ResourceData\<close> of the resource's
  schema, with no attribute and the given ID, goes through the importer's
  \<open>StateContext\<close>.
\<close>

definition ImportResourceState ::
  "Resource \<Rightarrow> ProviderConfig \<Rightarrow> string \<Rightarrow> ResourceData list \<times> go_error option" where
  "ImportResourceState r meta ident =
    StateContext (Importer r) meta
      (SetId ident \<lparr>Id = '''', attrs = Map.empty, data_schema = Schema r\<rparr>)"

section \<open>Request authorizers\<close>

record Config =
  PersonalAPIKey :: string
  AdminAPIKey :: string
  InsightsInsertKey :: string

text \<open>
  The request with its header fields, each a list of values as in Go's \<open>http.Header\<close>.
\<close>

record Request =
  headers :: "string \<rightharpoonup> string list"

text \<open>
  Modelled from the spec: \<open>Request.SetHeader\<close> is declared in a file of the package that
  is not among the sources. It replaces the values of the named header of the underlying
  request by the one given (the names the authorizers use are in canonical form already).
\<close>

definition SetHeader :: "string \<Rightarrow> string \<Rightarrow> 'a Request_scheme \<Rightarrow> 'a Request_scheme" where
  "SetHeader k v r = r\<lparr>headers := (headers r)(k \<mapsto> [v])\<rparr>"

text \<open>The implementations of the interface \<open>RequestAuthorizer\<close>.\<close>

datatype RequestAuthorizer =
    NerdGraphAuthorizer
  | PersonalAPIKeyCapableV2Authorizer
  | ClassicV2Authorizer
  | InsightsInsertKeyAuthorizer

fun AuthorizeRequest ::
  "RequestAuthorizer \<Rightarrow> 'a Request_scheme \<Rightarrow> Config \<Rightarrow> 'a Request_scheme" where
  "AuthorizeRequest NerdGraphAuthorizer r c = SetHeader ''Api-Key'' (PersonalAPIKey c) r"
| "AuthorizeRequest PersonalAPIKeyCapableV2Authorizer r c =
     (if PersonalAPIKey c \<noteq> ''''
      then SetHeader ''Auth-Type'' ''User-Api-Key'' (SetHeader ''Api-Key'' (PersonalAPIKey c) r)
      else SetHeader ''X-Api-Key'' (AdminAPIKey c) r)"
| "AuthorizeRequest ClassicV2Authorizer r c = SetHeader ''X-Api-Key'' (AdminAPIKey c) r"
| "AuthorizeRequest InsightsInsertKeyAuthorizer r c =
     SetHeader ''X-Insert-Key'' (InsightsInsertKey c) r"

section \<open>The acceptance suite's destroy check\<close>

text \<open>
  The part of \<open>terraform.State\<close> the check reads: the resources of the root module,
  each with its type and the ID of its primary instance. Go iterates the map in some
  order; the list is the resources in that order.
\<close>

record InstanceState =
  ID :: string

record ResourceState =
  ResourceType :: string
  Primary :: InstanceState

record DataPartitionRule =
  RuleID :: string
  RuleAccountID :: int
  RuleDescription :: string
  RuleEnabled :: bool
  AttributeName :: string
  MatchingExpression :: string
  MatchingMethod :: string
  RetentionPolicy :: string
  TargetDataPartition :: string

text \<open>
  \<open>getDataPartitionByID\<close> is a helper of the provider that is not among the sources; the
  check takes it as a parameter, already applied to the client and the test account. An
  error of the check is its message, \<open>None\<close> is nil.
\<close>

fun testAccCheckNewRelicDataPartitionRuleDestroy ::
  "(string \<Rightarrow> DataPartitionRule option \<times> go_error option) \<Rightarrow>
     (string \<times> ResourceState) list \<Rightarrow> string option" where
  "testAccCheckNewRelicDataPartitionRuleDestroy getDataPartitionByID [] = None"
| "testAccCheckNewRelicDataPartitionRuleDestroy getDataPartitionByID ((n, rs) # rest) =
     (if ResourceType rs \<noteq> ''newrelic_data_partition_rule''
      then testAccCheckNewRelicDataPartitionRuleDestroy getDataPartitionByID rest
      else case snd (getDataPartitionByID (ID (Primary rs))) of
             Some err \<Rightarrow> Some (''data partition rule still exists: '' @ error_message err)
           | None \<Rightarrow> testAccCheckNewRelicDataPartitionRuleDestroy getDataPartitionByID rest)"

text \<open>
  The sibling check of the suite, \<open>testAccCheckNewRelicDataPartitionRuleExists\<close>: the
  rule exists when the resource is in the state, has an ID, and the lookup returns no
  error.
\<close>

definition testAccCheckNewRelicDataPartitionRuleExists ::
  "(string \<Rightarrow> DataPartitionRule option \<times> go_error option) \<Rightarrow> string \<Rightarrow>
     (string \<times> ResourceState) list \<Rightarrow> string option" where
  "testAccCheckNewRelicDataPartitionRuleExists getDataPartitionByID n resources =
    (case map_of resources n of
       None \<Rightarrow> Some (''not found: '' @ n)
     | Some rs \<Rightarrow>
         if ID (Primary rs) = '''' then Some ''no ID is set''
         else case snd (getDataPartitionByID (ID (Primary rs))) of
                Some err \<Rightarrow> Some (error_message err)
              | None \<Rightarrow> None)"

section \<open>The data partition rule resource\<close>

text \<open>
  Modelled from the spec: the data partition rule resource (its handlers and its importer)
  and the rule store of the remote service are not among the sources; only the
  resource's acceptance tests are. By the spec the resource is a flat attribute record
  mirrored 1:1 onto the fields of the API's requests and responses, an error of an API
  call becomes a diagnostic, a duplicate name is answered with the vendor's error code,
  and import round-trips the state. The attributes are those of the tests'
  configurations.
\<close>

record DataPartitionAttributes =
  account_id :: int
  description :: string
  enabled :: bool
  attribute_name :: string
  matching_expression :: string
  matching_method :: string
  retention_policy :: string
  target_data_partition :: string

record DataPartitionData =
  dp_Id :: string
  dp_attrs :: DataPartitionAttributes

text \<open>
  Modelled from the spec: the 1:1 mirror between the attributes and the fields of a rule
  of the API, in both directions.
\<close>

definition ruleOfAttributes :: "string \<Rightarrow> DataPartitionAttributes \<Rightarrow> DataPartitionRule" where
  "ruleOfAttributes ruleID a =
    \<lparr>RuleID = ruleID, RuleAccountID = account_id a, RuleDescription = description a,
     RuleEnabled = enabled a, AttributeName = attribute_name a,
     MatchingExpression = matching_expression a, MatchingMethod = matching_method a,
     RetentionPolicy = retention_policy a, TargetDataPartition = target_data_partition a\<rparr>"

definition attributesOfRule :: "DataPartitionRule \<Rightarrow> DataPartitionAttributes" where
  "attributesOfRule r =
    \<lparr>account_id = RuleAccountID r, description = RuleDescription r, enabled = RuleEnabled r,
     attribute_name = AttributeName r, matching_expression = MatchingExpression r,
     matching_method = MatchingMethod r, retention_policy = RetentionPolicy r,
     target_data_partition = TargetDataPartition r\<rparr>"

text \<open>
  Modelled from the spec: the remote service's creation of a rule in the account's list
  of rules. A rule whose target name is taken is refused with the vendor's error code;
  otherwise the rule is stored under the ID the service gives it (\<open>newID\<close>, a parameter).
\<close>

definition createDataPartitionRule ::
  "(DataPartitionRule list \<Rightarrow> string) \<Rightarrow> DataPartitionRule list \<Rightarrow> DataPartitionAttributes \<Rightarrow>
     DataPartitionRule list \<times> (string + DataPartitionRule)" where
  "createDataPartitionRule newID store a =
    (if target_data_partition a \<in> set (map TargetDataPartition store)
     then (store, Inl ''DUPLICATE_DATA_PARTITION_RULE_NAME'')
     else (store @ [ruleOfAttributes (newID store) a], Inr (ruleOfAttributes (newID store) a)))"

text \<open>
  Modelled from the spec: the lookup of a rule by its ID among the account's rules
  (the provider's \<open>getDataPartitionByID\<close>, over the store instead of the client).
\<close>

definition getDataPartitionByID ::
  "DataPartitionRule list \<Rightarrow> string \<Rightarrow> DataPartitionRule option \<times> go_error option" where
  "getDataPartitionByID store ruleID =
    (case find (\<lambda>r. RuleID r = ruleID) store of
       Some r \<Rightarrow> (Some r, None)
     | None \<Rightarrow> (None, Some (OtherError ''data partition rule not found'')))"

text \<open>
  Modelled from the spec: the create handler sends the attributes to the API; an error
  of the API becomes a diagnostic that carries the error code, and on success the ID is
  the new rule's.
\<close>

definition resourceNewRelicDataPartitionCreate ::
  "(DataPartitionRule list \<Rightarrow> string) \<Rightarrow> DataPartitionRule list \<Rightarrow> DataPartitionData \<Rightarrow>
     DataPartitionRule list \<times> DataPartitionData \<times> Diagnostics" where
  "resourceNewRelicDataPartitionCreate newID store d =
    (case createDataPartitionRule newID store (dp_attrs d) of
       (store', Inl code) \<Rightarrow>
         (store', d, [\<lparr>Severity = Error, Summary = code, Detail = ''''\<rparr>])
     | (store', Inr rule) \<Rightarrow> (store', d\<lparr>dp_Id := RuleID rule\<rparr>, []))"

text \<open>
  Modelled from the spec: the read handler looks the rule up by the resource ID and
  mirrors its fields onto the attributes; an error of the lookup becomes a diagnostic.
\<close>

definition resourceNewRelicDataPartitionRead ::
  "DataPartitionRule list \<Rightarrow> DataPartitionData \<Rightarrow> DataPartitionData \<times> Diagnostics" where
  "resourceNewRelicDataPartitionRead store d =
    (case getDataPartitionByID store (dp_Id d) of
       (_, Some err) \<Rightarrow> (d, FromErr err)
     | (None, None) \<Rightarrow> (d, [])
     | (Some rule, None) \<Rightarrow> (d\<lparr>dp_attrs := attributesOfRule rule\<rparr>, []))"

text \<open>
  Modelled from the spec: import by ID. The importer passes the ID through to a state
  without attribute values, and the read handler fills the state in.
\<close>

definition importDataPartitionRule ::
  "DataPartitionRule list \<Rightarrow> string \<Rightarrow> DataPartitionData \<times> Diagnostics" where
  "importDataPartitionRule store ruleID =
    resourceNewRelicDataPartitionRead store
      \<lparr>dp_Id = ruleID,
       dp_attrs = \<lparr>account_id = 0, description = '''', enabled = False, attribute_name = '''',
                   matching_expression = '''', matching_method = '''', retention_policy = '''',
                   target_data_partition = ''''\<rparr>\<rparr>"




section \<open>Example inputs\<close>

definition exampleData :: ResourceData where
  "exampleData =
    \<lparr>Id = ''GUID-1'',
     attrs = [''description'' \<mapsto> StringV ''lab'', ''name'' \<mapsto> StringV ''loc'',
              ''verified_script_execution'' \<mapsto> BoolV True],
     data_schema = privateLocationSchema\<rparr>"

definition exampleErrors :: "SyntheticsPrivateLocationMutationError list" where
  "exampleErrors =
    [\<lparr>ErrDescription = ''name taken'', ErrType = ''BAD_REQUEST''\<rparr>,
     \<lparr>ErrDescription = ''no access'', ErrType = ''UNAUTHORIZED''\<rparr>]"

definition exampleResult :: "SyntheticsPrivateLocationMutationError list \<Rightarrow>
    SyntheticsPrivateLocationMutationResult" where
  "exampleResult errs =
    \<lparr>DomainId = ''dom-7'', Errors = errs, GUID = ''GUID-9'', Key = ''k-3'',
     LocationId = ''7-loc''\<rparr>"

text \<open>
  A client whose mutations answer with the given pair, whose delete answers with the
  given errors, and whose entity lookup answers with the given pair.
\<close>

definition exampleClient ::
  "SyntheticsPrivateLocationMutationResult option \<times> go_error option \<Rightarrow>
   EntityInterface option \<times> go_error option \<Rightarrow> NewRelic" where
  "exampleClient mutation lookup =
    \<lparr>Synthetics =
       \<lparr>SyntheticsCreatePrivateLocationWithContext = (\<lambda>accountID description name vse. mutation),
        SyntheticsUpdatePrivateLocation = (\<lambda>description guid vse. mutation),
        SyntheticsDeletePrivateLocationWithContext =
          (\<lambda>guid. (map_option (\<lambda>r. \<lparr>DeleteErrors = Errors r\<rparr>) (fst mutation), snd mutation))\<rparr>,
     Entities = \<lparr>GetEntity = (\<lambda>guid. lookup)\<rparr>\<rparr>"

definition exampleConfig ::
  "SyntheticsPrivateLocationMutationResult option \<times> go_error option \<Rightarrow>
   EntityInterface option \<times> go_error option \<Rightarrow> ProviderConfig" where
  "exampleConfig mutation lookup = \<lparr>NewClient = exampleClient mutation lookup, AccountID = 42\<rparr>"

definition exampleSelectAccountID :: "ProviderConfig \<Rightarrow> ResourceData \<Rightarrow> int" where
  "exampleSelectAccountID providerConfig d =
    (case attrs d ''account_id'' of Some (IntV n) \<Rightarrow> n | _ \<Rightarrow> AccountID providerConfig)"

text \<open>
  A client whose update answers with one response error that spells out the arguments it
  was called with.
\<close>

definition echoConfig :: ProviderConfig where
  "echoConfig =
    \<lparr>NewClient =
       \<lparr>Synthetics =
          \<lparr>SyntheticsCreatePrivateLocationWithContext =
             (\<lambda>accountID description name vse. (None, Some (OtherError ''unused''))),
           SyntheticsUpdatePrivateLocation =
             (\<lambda>description guid vse.
                (Some (exampleResult
                   [\<lparr>ErrDescription =
                        description @ ''/'' @ guid @ ''/'' @ (if vse then ''verified'' else ''open''),
                      ErrType = ''ECHO''\<rparr>]),
                 None)),
           SyntheticsDeletePrivateLocationWithContext =
             (\<lambda>guid. (None, Some (OtherError ''unused'')))\<rparr>,
        Entities = \<lparr>GetEntity = (\<lambda>guid. (None, Some (OtherError ''unused'')))\<rparr>\<rparr>,
     AccountID = 42\<rparr>"

definition importedData :: ResourceData where
  "importedData = \<lparr>Id = ''GUID-1'', attrs = Map.empty, data_schema = privateLocationSchema\<rparr>"

definition exampleRequest :: Request where
  "exampleRequest = \<lparr>headers = [''Accept'' \<mapsto> [''application/json''],
                                 ''X-Api-Key'' \<mapsto> [''stale'']]\<rparr>"

definition exampleState :: "(string \<times> ResourceState) list" where
  "exampleState =
    [(''newrelic_synthetics_private_location.bar'',
        \<lparr>ResourceType = ''newrelic_synthetics_private_location'', Primary = \<lparr>ID = ''GUID-1''\<rparr>\<rparr>),
     (''newrelic_data_partition_rule.foo'',
        \<lparr>ResourceType = ''newrelic_data_partition_rule'', Primary = \<lparr>ID = ''rule-1''\<rparr>\<rparr>)]"

definition exampleRule :: DataPartitionRule where
  "exampleRule =
    \<lparr>RuleID = ''rule-1'', RuleAccountID = 42, RuleDescription = ''app'', RuleEnabled = True,
     AttributeName = ''hostname'', MatchingExpression = ''localhost'',
     MatchingMethod = ''EQUALS'', RetentionPolicy = ''SECONDARY'',
     TargetDataPartition = ''Log_Test_abcdefg''\<rparr>"

text \<open>A lookup that finds the rule under every ID, and one that finds no rule.\<close>

definition lookupFinds :: "string \<Rightarrow> DataPartitionRule option \<times> go_error option" where
  "lookupFinds ruleID = (Some (exampleRule\<lparr>RuleID := ruleID\<rparr>), None)"

definition lookupMisses :: "string \<Rightarrow> DataPartitionRule option \<times> go_error option" where
  "lookupMisses ruleID = (None, Some (OtherError ''rule not found''))"

text \<open>An ID the store does not hold yet: the number of its rules, in unary.\<close>

definition exampleNewID :: "DataPartitionRule list \<Rightarrow> string" where
  "exampleNewID store = ''rule-'' @ replicate (length store) CHR ''i''"


section \<open>Properties\<close>

subsection \<open>The error loop\<close>

lemma appendErrors_map:
  "appendErrors diags errs =
     diags @ map (\<lambda>e. \<lparr>Severity = Error, Summary = ErrDescription e, Detail = ''''\<rparr>) errs"
  by (induction errs arbitrary: diags) simp_all

subsection \<open>Errors of the API client\<close>

text \<open>
  C1. Whenever the client call of Create, Update or Delete returns an error, and whenever
  the entity lookup of Read returns an error that is not a NotFound, the handler returns
  \<open>diag.FromErr\<close> of that error and leaves the resource data as it was; that value
  is not empty: it is one diagnostic of severity Error whose summary is the error's
  message.
\<close>

theorem client_error_is_surfaced:
  "(snd (SyntheticsCreatePrivateLocationWithContext (Synthetics (NewClient cfg)) (sel cfg d)
           (Get_string d ''description'') (Get_string d ''name'')
           (Get_bool d ''verified_script_execution'')) = Some err
      \<longrightarrow> resourceNewRelicSyntheticsPrivateLocationCreate sel cfg d = (d, Return (FromErr err)))
   \<and> (snd (SyntheticsUpdatePrivateLocation (Synthetics (NewClient cfg))
           (Get_string d ''description'') (Id d)
           (Get_bool d ''verified_script_execution'')) = Some err
      \<longrightarrow> resourceNewRelicSyntheticsPrivateLocationUpdate cfg d = (d, Return (FromErr err)))
   \<and> (snd (SyntheticsDeletePrivateLocationWithContext (Synthetics (NewClient cfg)) (Id d)) = Some err
      \<longrightarrow> resourceNewRelicSyntheticsPrivateLocationDelete cfg d = (d, Return (FromErr err)))
   \<and> (snd (GetEntity (Entities (NewClient cfg)) (Id d)) = Some err \<and> (\<forall>m. err \<noteq> NotFound m)
      \<longrightarrow> resourceNewRelicSyntheticsPrivateLocationRead cfg d = (d, Return (FromErr err)))
   \<and> FromErr err \<noteq> []
   \<and> map Severity (FromErr err) = [Error]
   \<and> map Summary (FromErr err) = [error_message err]"
proof (intro conjI impI)
  assume "snd (SyntheticsCreatePrivateLocationWithContext (Synthetics (NewClient cfg)) (sel cfg d)
           (Get_string d ''description'') (Get_string d ''name'')
           (Get_bool d ''verified_script_execution'')) = Some err"
  then show "resourceNewRelicSyntheticsPrivateLocationCreate sel cfg d = (d, Return (FromErr err))"
    by (auto simp add: resourceNewRelicSyntheticsPrivateLocationCreate_def Let_def
             split: prod.splits option.splits)
next
  assume "snd (SyntheticsUpdatePrivateLocation (Synthetics (NewClient cfg))
           (Get_string d ''description'') (Id d)
           (Get_bool d ''verified_script_execution'')) = Some err"
  then show "resourceNewRelicSyntheticsPrivateLocationUpdate cfg d = (d, Return (FromErr err))"
    by (auto simp add: resourceNewRelicSyntheticsPrivateLocationUpdate_def Let_def
             split: prod.splits option.splits)
next
  assume "snd (SyntheticsDeletePrivateLocationWithContext (Synthetics (NewClient cfg)) (Id d))
            = Some err"
  then show "resourceNewRelicSyntheticsPrivateLocationDelete cfg d = (d, Return (FromErr err))"
    by (auto simp add: resourceNewRelicSyntheticsPrivateLocationDelete_def Let_def
             split: prod.splits option.splits)
next
  assume "snd (GetEntity (Entities (NewClient cfg)) (Id d)) = Some err
            \<and> (\<forall>m. err \<noteq> NotFound m)"
  then show "resourceNewRelicSyntheticsPrivateLocationRead cfg d = (d, Return (FromErr err))"
    by (cases err)
       (auto simp add: resourceNewRelicSyntheticsPrivateLocationRead_def Let_def
             split: prod.splits option.splits)
qed (simp_all add: FromErr_def)

theorem client_error_is_surfaced_witness:
  "resourceNewRelicSyntheticsPrivateLocationCreate exampleSelectAccountID
     (exampleConfig (None, Some (OtherError ''boom'')) (None, Some (OtherError ''boom''))) exampleData
     = (exampleData, Return [\<lparr>Severity = Error, Summary = ''boom'', Detail = ''''\<rparr>])
   \<and> resourceNewRelicSyntheticsPrivateLocationUpdate
     (exampleConfig (None, Some (OtherError ''boom'')) (None, Some (OtherError ''boom''))) exampleData
     = (exampleData, Return [\<lparr>Severity = Error, Summary = ''boom'', Detail = ''''\<rparr>])
   \<and> resourceNewRelicSyntheticsPrivateLocationDelete
     (exampleConfig (None, Some (OtherError ''boom'')) (None, Some (OtherError ''boom''))) exampleData
     = (exampleData, Return [\<lparr>Severity = Error, Summary = ''boom'', Detail = ''''\<rparr>])
   \<and> resourceNewRelicSyntheticsPrivateLocationRead
     (exampleConfig (None, Some (OtherError ''boom'')) (None, Some (OtherError ''boom''))) exampleData
     = (exampleData, Return [\<lparr>Severity = Error, Summary = ''boom'', Detail = ''''\<rparr>])"
  using client_error_is_surfaced
    [of "exampleConfig (None, Some (OtherError ''boom'')) (None, Some (OtherError ''boom''))"
        exampleSelectAccountID exampleData "OtherError ''boom''"]
  by (simp add: exampleConfig_def exampleClient_def FromErr_def)

subsection \<open>Writing attributes under the resource's schema\<close>

lemma data_schema_SetId [simp]: "data_schema (SetId v d) = data_schema d"
  by (simp add: SetId_def)

lemma data_schema_Set_attr [simp]: "data_schema (Set_attr k v d) = data_schema d"
  by (simp add: Set_attr_def split: option.splits)

lemma Id_Set_attr [simp]: "Id (Set_attr k v d) = Id d"
  by (simp add: Set_attr_def split: option.splits)

lemma Set_attr_string:
  assumes "data_schema d = privateLocationSchema"
    and "k \<in> {''description'', ''name'', ''domain_id'', ''guid'', ''key'', ''location_id''}"
  shows "Set_attr k (StringV v) d = d\<lparr>attrs := (attrs d)(k \<mapsto> StringV v)\<rparr>"
  using assms by (auto simp add: Set_attr_def privateLocationSchema_def)

subsection \<open>Create\<close>

text \<open>
  C2. When the create call returns a response and no error: if the response carries
  errors, Create returns one diagnostic of severity Error per response error, in order,
  with the error's description as summary, and the resource data (the ID and every
  attribute) is what it was; if the response carries none, Create returns no diagnostic,
  the ID is the response's GUID and the attributes domain_id, key, location_id and guid
  hold the response's values.
\<close>

theorem create_response_errors:
  assumes "SyntheticsCreatePrivateLocationWithContext (Synthetics (NewClient cfg)) (sel cfg d)
             (Get_string d ''description'') (Get_string d ''name'')
             (Get_bool d ''verified_script_execution'') = (Some res, None)"
  shows "(Errors res \<noteq> [] \<longrightarrow>
            resourceNewRelicSyntheticsPrivateLocationCreate sel cfg d =
              (d, Return (map (\<lambda>e. \<lparr>Severity = Error, Summary = ErrDescription e, Detail = ''''\<rparr>)
                            (Errors res))))
       \<and> (Errors res = [] \<and> data_schema d = privateLocationSchema \<longrightarrow>
            resourceNewRelicSyntheticsPrivateLocationCreate sel cfg d =
              (d\<lparr>Id := GUID res,
                 attrs := (attrs d)(''domain_id'' \<mapsto> StringV (DomainId res),
                                    ''key'' \<mapsto> StringV (Key res),
                                    ''location_id'' \<mapsto> StringV (LocationId res),
                                    ''guid'' \<mapsto> StringV (GUID res))\<rparr>,
               Return []))"
proof (intro conjI impI)
  assume "Errors res \<noteq> []"
  with assms show "resourceNewRelicSyntheticsPrivateLocationCreate sel cfg d =
      (d, Return (map (\<lambda>e. \<lparr>Severity = Error, Summary = ErrDescription e, Detail = ''''\<rparr>)
                    (Errors res)))"
    by (simp add: resourceNewRelicSyntheticsPrivateLocationCreate_def Let_def appendErrors_map)
next
  assume h: "Errors res = [] \<and> data_schema d = privateLocationSchema"
  then have s: "data_schema (SetId (GUID res) d) = privateLocationSchema"
    by simp
  have "Set_attr ''guid'' (StringV (GUID res))
          (Set_attr ''location_id'' (StringV (LocationId res))
            (Set_attr ''key'' (StringV (Key res))
              (Set_attr ''domain_id'' (StringV (DomainId res)) (SetId (GUID res) d))))
        = d\<lparr>Id := GUID res,
             attrs := (attrs d)(''domain_id'' \<mapsto> StringV (DomainId res),
                                ''key'' \<mapsto> StringV (Key res),
                                ''location_id'' \<mapsto> StringV (LocationId res),
                                ''guid'' \<mapsto> StringV (GUID res))\<rparr>"
    using s by (simp add: Set_attr_string) (simp add: SetId_def)
  with assms h show "resourceNewRelicSyntheticsPrivateLocationCreate sel cfg d =
      (d\<lparr>Id := GUID res,
         attrs := (attrs d)(''domain_id'' \<mapsto> StringV (DomainId res),
                            ''key'' \<mapsto> StringV (Key res),
                            ''location_id'' \<mapsto> StringV (LocationId res),
                            ''guid'' \<mapsto> StringV (GUID res))\<rparr>,
       Return [])"
    by (simp add: resourceNewRelicSyntheticsPrivateLocationCreate_def Let_def)
qed

theorem create_response_errors_witness:
  "resourceNewRelicSyntheticsPrivateLocationCreate exampleSelectAccountID
     (exampleConfig (Some (exampleResult exampleErrors), None) (None, None)) exampleData
     = (exampleData,
        Return [\<lparr>Severity = Error, Summary = ''name taken'', Detail = ''''\<rparr>,
                \<lparr>Severity = Error, Summary = ''no access'', Detail = ''''\<rparr>])
   \<and> resourceNewRelicSyntheticsPrivateLocationCreate exampleSelectAccountID
     (exampleConfig (Some (exampleResult []), None) (None, None)) exampleData
     = (exampleData\<lparr>Id := ''GUID-9'',
          attrs := (attrs exampleData)(''domain_id'' \<mapsto> StringV ''dom-7'',
                     ''key'' \<mapsto> StringV ''k-3'', ''location_id'' \<mapsto> StringV ''7-loc'',
                     ''guid'' \<mapsto> StringV ''GUID-9'')\<rparr>,
        Return [])"
  using create_response_errors
      [of "exampleConfig (Some (exampleResult exampleErrors), None) (None, None)"
          exampleSelectAccountID exampleData "exampleResult exampleErrors"]
    create_response_errors
      [of "exampleConfig (Some (exampleResult []), None) (None, None)"
          exampleSelectAccountID exampleData "exampleResult []"]
  by (simp add: exampleConfig_def exampleClient_def exampleResult_def exampleErrors_def
        exampleData_def)

subsection \<open>Read and the not-found case\<close>

text \<open>
  C9. When the entity lookup of Read returns an error: if the error is a NotFound, Read
  sets the resource ID to the empty string, changes nothing else and returns no
  diagnostic; if it is any other error, Read returns \<open>diag.FromErr\<close> of it and leaves
  the data as it was. So Read returns no diagnostic exactly for a NotFound.
\<close>

theorem read_not_found_clears_id:
  assumes "snd (GetEntity (Entities (NewClient cfg)) (Id d)) = Some err"
  shows "(\<forall>m. err = NotFound m \<longrightarrow>
            resourceNewRelicSyntheticsPrivateLocationRead cfg d = (d\<lparr>Id := ''''\<rparr>, Return []))
       \<and> ((\<forall>m. err \<noteq> NotFound m) \<longrightarrow>
            resourceNewRelicSyntheticsPrivateLocationRead cfg d = (d, Return (FromErr err)))
       \<and> (snd (resourceNewRelicSyntheticsPrivateLocationRead cfg d) = Return []
            \<longleftrightarrow> (\<exists>m. err = NotFound m))"
  using assms
  by (cases err)
     (auto simp add: resourceNewRelicSyntheticsPrivateLocationRead_def Let_def SetId_def
        FromErr_def split: prod.splits option.splits)

theorem read_not_found_clears_id_witness:
  "resourceNewRelicSyntheticsPrivateLocationRead
     (exampleConfig (None, None) (None, Some (NotFound ''gone''))) exampleData
     = (exampleData\<lparr>Id := ''''\<rparr>, Return [])
   \<and> resourceNewRelicSyntheticsPrivateLocationRead
     (exampleConfig (None, None) (None, Some (OtherError ''timeout''))) exampleData
     = (exampleData, Return [\<lparr>Severity = Error, Summary = ''timeout'', Detail = ''''\<rparr>])"
  using read_not_found_clears_id
      [of "exampleConfig (None, None) (None, Some (NotFound ''gone''))" exampleData
          "NotFound ''gone''"]
    read_not_found_clears_id
      [of "exampleConfig (None, None) (None, Some (OtherError ''timeout''))" exampleData
          "OtherError ''timeout''"]
  by (simp add: exampleConfig_def exampleClient_def FromErr_def)

subsection \<open>Update\<close>

text \<open>
  C10. Update never changes the resource data: whatever the client answers (a response
  without errors, a response with errors, an error, or no response at all), the data
  after Update is the data before it. And what Update returns depends on the data only
  through the resource ID and the attributes description and verified_script_execution:
  two states that agree on these three give the same result.
\<close>

theorem update_leaves_state:
  "fst (resourceNewRelicSyntheticsPrivateLocationUpdate cfg d) = d
   \<and> (Id d' = Id d
        \<and> Get_string d' ''description'' = Get_string d ''description''
        \<and> Get_bool d' ''verified_script_execution'' = Get_bool d ''verified_script_execution''
      \<longrightarrow> snd (resourceNewRelicSyntheticsPrivateLocationUpdate cfg d')
            = snd (resourceNewRelicSyntheticsPrivateLocationUpdate cfg d))"
  by (auto simp add: resourceNewRelicSyntheticsPrivateLocationUpdate_def Let_def
        split: prod.splits option.splits)

theorem update_leaves_state_witness:
  "fst (resourceNewRelicSyntheticsPrivateLocationUpdate echoConfig exampleData) = exampleData
   \<and> snd (resourceNewRelicSyntheticsPrivateLocationUpdate echoConfig
            (exampleData\<lparr>attrs := (attrs exampleData)(''name'' \<mapsto> StringV ''other'',
                                       ''key'' \<mapsto> StringV ''k-0'')\<rparr>))
       = Return [\<lparr>Severity = Error, Summary = ''lab/GUID-1/verified'', Detail = ''''\<rparr>]"
  using update_leaves_state
      [of echoConfig exampleData
          "exampleData\<lparr>attrs := (attrs exampleData)(''name'' \<mapsto> StringV ''other'',
                                       ''key'' \<mapsto> StringV ''k-0'')\<rparr>"]
  by (simp add: echoConfig_def exampleData_def exampleResult_def Get_string_def Get_bool_def
        resourceNewRelicSyntheticsPrivateLocationUpdate_def Let_def)

subsection \<open>Read of an existing entity\<close>

text \<open>
  Against C4 as it is stated: Read of a freshly imported resource whose entity exists (a
  generic entity outline) succeeds and leaves description, verified_script_execution,
  account_id, domain_id, key and location_id without a value; and Read of an entity of
  another type sets no attribute at all.
\<close>

theorem read_leaves_attributes_unset:
  "snd (resourceNewRelicSyntheticsPrivateLocationRead
     (exampleConfig (None, None) (Some (GenericEntityOutline ''GUID-1'' ''loc''), None))
     importedData) = Return []
   \<and> attrs (fst (resourceNewRelicSyntheticsPrivateLocationRead
     (exampleConfig (None, None) (Some (GenericEntityOutline ''GUID-1'' ''loc''), None))
     importedData)) ''description'' = None
   \<and> attrs (fst (resourceNewRelicSyntheticsPrivateLocationRead
     (exampleConfig (None, None) (Some (GenericEntityOutline ''GUID-1'' ''loc''), None))
     importedData)) ''verified_script_execution'' = None
   \<and> attrs (fst (resourceNewRelicSyntheticsPrivateLocationRead
     (exampleConfig (None, None) (Some (GenericEntityOutline ''GUID-1'' ''loc''), None))
     importedData)) ''account_id'' = None
   \<and> attrs (fst (resourceNewRelicSyntheticsPrivateLocationRead
     (exampleConfig (None, None) (Some (GenericEntityOutline ''GUID-1'' ''loc''), None))
     importedData)) ''domain_id'' = None
   \<and> attrs (fst (resourceNewRelicSyntheticsPrivateLocationRead
     (exampleConfig (None, None) (Some (GenericEntityOutline ''GUID-1'' ''loc''), None))
     importedData)) ''key'' = None
   \<and> attrs (fst (resourceNewRelicSyntheticsPrivateLocationRead
     (exampleConfig (None, None) (Some (GenericEntityOutline ''GUID-1'' ''loc''), None))
     importedData)) ''location_id'' = None
   \<and> resourceNewRelicSyntheticsPrivateLocationRead
     (exampleConfig (None, None) (Some (OtherEntity ''ApmApplicationEntityOutline''), None))
     importedData = (importedData, Return [])"
  by (simp add: resourceNewRelicSyntheticsPrivateLocationRead_def exampleConfig_def
        exampleClient_def importedData_def Set_attr_def privateLocationSchema_def)

text \<open>
  C4, amended. When the entity lookup of Read returns an entity and no error: if the
  entity is a generic entity outline, Read sets guid and name to the outline's GUID and
  name, and every other attribute and the ID keep their values; for every other entity
  Read changes nothing. Read returns no diagnostic in both cases.
\<close>

theorem read_sets_guid_and_name:
  assumes "GetEntity (Entities (NewClient cfg)) (Id d) = (Some e, None)"
    and "data_schema d = privateLocationSchema"
  shows "(\<forall>guid name. e = GenericEntityOutline guid name \<longrightarrow>
            resourceNewRelicSyntheticsPrivateLocationRead cfg d =
              (d\<lparr>attrs := (attrs d)(''guid'' \<mapsto> StringV guid, ''name'' \<mapsto> StringV name)\<rparr>,
               Return []))
       \<and> ((\<forall>guid name. e \<noteq> GenericEntityOutline guid name) \<longrightarrow>
            resourceNewRelicSyntheticsPrivateLocationRead cfg d = (d, Return []))"
proof (cases e)
  case NilEntity
  with assms show ?thesis
    by (simp add: resourceNewRelicSyntheticsPrivateLocationRead_def)
next
  case (GenericEntityOutline guid name)
  with assms show ?thesis
    by (simp add: resourceNewRelicSyntheticsPrivateLocationRead_def Set_attr_string)
next
  case (OtherEntity t)
  with assms show ?thesis
    by (simp add: resourceNewRelicSyntheticsPrivateLocationRead_def)
qed

theorem read_sets_guid_and_name_witness:
  "resourceNewRelicSyntheticsPrivateLocationRead
     (exampleConfig (None, None) (Some (GenericEntityOutline ''GUID-1'' ''renamed''), None))
     exampleData
   = (exampleData\<lparr>attrs := (attrs exampleData)(''guid'' \<mapsto> StringV ''GUID-1'',
                                               ''name'' \<mapsto> StringV ''renamed'')\<rparr>,
      Return [])
   \<and> resourceNewRelicSyntheticsPrivateLocationRead
     (exampleConfig (None, None) (Some NilEntity, None)) exampleData
   = (exampleData, Return [])"
  using read_sets_guid_and_name
      [of "exampleConfig (None, None) (Some (GenericEntityOutline ''GUID-1'' ''renamed''), None)"
          exampleData "GenericEntityOutline ''GUID-1'' ''renamed''"]
    read_sets_guid_and_name
      [of "exampleConfig (None, None) (Some NilEntity, None)" exampleData NilEntity]
  by (simp add: exampleConfig_def exampleClient_def exampleData_def)

subsection \<open>The resource definition\<close>

text \<open>
  C8. The resource definition of the synthetics private location binds CreateContext,
  ReadContext, UpdateContext and DeleteContext to the resource's create, read, update and
  delete handlers, its importer's StateContext to the SDK's pass-through, and its Schema
  to the eight attributes with their types.
\<close>

theorem resource_follows_crud_template:
  "CreateContext (resourceNewRelicSyntheticsPrivateLocation sel)
     = resourceNewRelicSyntheticsPrivateLocationCreate sel
   \<and> ReadContext (resourceNewRelicSyntheticsPrivateLocation sel)
     = resourceNewRelicSyntheticsPrivateLocationRead
   \<and> UpdateContext (resourceNewRelicSyntheticsPrivateLocation sel)
     = resourceNewRelicSyntheticsPrivateLocationUpdate
   \<and> DeleteContext (resourceNewRelicSyntheticsPrivateLocation sel)
     = resourceNewRelicSyntheticsPrivateLocationDelete
   \<and> StateContext (Importer (resourceNewRelicSyntheticsPrivateLocation sel))
     = ImportStatePassthroughContext
   \<and> map (\<lambda>(k, e). (k, Type e)) (Schema (resourceNewRelicSyntheticsPrivateLocation sel))
     = [(''account_id'', TypeInt), (''description'', TypeString), (''name'', TypeString),
        (''verified_script_execution'', TypeBool), (''domain_id'', TypeString),
        (''guid'', TypeString), (''key'', TypeString), (''location_id'', TypeString)]"
  by (simp add: resourceNewRelicSyntheticsPrivateLocation_def privateLocationSchema_def)

subsection \<open>Request authorizers\<close>

text \<open>
  C6. For every request and every configuration: the NerdGraph authorizer returns the
  request with header Api-Key set to the personal API key; the classic V2 authorizer
  returns it with X-Api-Key set to the admin API key; the V2 authorizer that can use a
  personal key returns it with Api-Key set to the personal key and Auth-Type set to
  User-Api-Key when the personal key is not empty, and with X-Api-Key set to the admin
  key when it is. Nothing else of the request changes, and the values written come from
  the configuration alone.
\<close>

theorem authorizers_set_key_headers:
  "AuthorizeRequest NerdGraphAuthorizer r c
     = r\<lparr>headers := (headers r)(''Api-Key'' \<mapsto> [PersonalAPIKey c])\<rparr>
   \<and> AuthorizeRequest ClassicV2Authorizer r c
     = r\<lparr>headers := (headers r)(''X-Api-Key'' \<mapsto> [AdminAPIKey c])\<rparr>
   \<and> (PersonalAPIKey c \<noteq> '''' \<longrightarrow>
        AuthorizeRequest PersonalAPIKeyCapableV2Authorizer r c
          = r\<lparr>headers := (headers r)(''Api-Key'' \<mapsto> [PersonalAPIKey c],
                                        ''Auth-Type'' \<mapsto> [''User-Api-Key''])\<rparr>)
   \<and> (PersonalAPIKey c = '''' \<longrightarrow>
        AuthorizeRequest PersonalAPIKeyCapableV2Authorizer r c
          = r\<lparr>headers := (headers r)(''X-Api-Key'' \<mapsto> [AdminAPIKey c])\<rparr>)"
  by (simp add: SetHeader_def)

theorem authorizers_set_key_headers_witness:
  "headers (AuthorizeRequest PersonalAPIKeyCapableV2Authorizer exampleRequest
      \<lparr>PersonalAPIKey = ''NRAK-1'', AdminAPIKey = ''adm-2'', InsightsInsertKey = ''ins-3''\<rparr>)
     = [''Accept'' \<mapsto> [''application/json''], ''X-Api-Key'' \<mapsto> [''stale''],
        ''Api-Key'' \<mapsto> [''NRAK-1''], ''Auth-Type'' \<mapsto> [''User-Api-Key'']]
   \<and> headers (AuthorizeRequest PersonalAPIKeyCapableV2Authorizer exampleRequest
      \<lparr>PersonalAPIKey = '''', AdminAPIKey = ''adm-2'', InsightsInsertKey = ''ins-3''\<rparr>)
     = [''Accept'' \<mapsto> [''application/json''], ''X-Api-Key'' \<mapsto> [''adm-2'']]"
  using authorizers_set_key_headers
      [of exampleRequest
          "\<lparr>PersonalAPIKey = ''NRAK-1'', AdminAPIKey = ''adm-2'', InsightsInsertKey = ''ins-3''\<rparr>"]
    authorizers_set_key_headers
      [of exampleRequest
          "\<lparr>PersonalAPIKey = '''', AdminAPIKey = ''adm-2'', InsightsInsertKey = ''ins-3''\<rparr>"]
  by (simp add: exampleRequest_def SetHeader_def)

text \<open>
  The fourth authorizer of the file, for custom events: X-Insert-Key, from the
  configuration's insert key.
\<close>

lemma insights_authorizer_sets_insert_key:
  "AuthorizeRequest InsightsInsertKeyAuthorizer r c
     = r\<lparr>headers := (headers r)(''X-Insert-Key'' \<mapsto> [InsightsInsertKey c])\<rparr>"
  by (simp add: SetHeader_def)

subsection \<open>The destroy check\<close>

text \<open>
  What the destroy check computes: it returns nil exactly when the lookup returns no
  error for every data partition rule of the state.
\<close>

lemma destroy_check_nil_iff:
  "testAccCheckNewRelicDataPartitionRuleDestroy get resources = None \<longleftrightarrow>
     (\<forall>(n, rs) \<in> set resources.
        ResourceType rs = ''newrelic_data_partition_rule'' \<longrightarrow>
          snd (get (ID (Primary rs))) = None)"
  by (induction get resources rule: testAccCheckNewRelicDataPartitionRuleDestroy.induct)
     (auto split: option.splits)

text \<open>
  C5, at a state that holds one data partition rule. With a lookup that finds the rule
  (the sibling check says it exists) the destroy check returns nil; with a lookup that
  fails because the rule is gone (the sibling check says it does not exist) the destroy
  check returns the error that the rule still exists.
\<close>

theorem destroy_check_is_inverted:
  "testAccCheckNewRelicDataPartitionRuleExists lookupFinds
      ''newrelic_data_partition_rule.foo'' exampleState = None
   \<and> testAccCheckNewRelicDataPartitionRuleDestroy lookupFinds exampleState = None
   \<and> testAccCheckNewRelicDataPartitionRuleExists lookupMisses
      ''newrelic_data_partition_rule.foo'' exampleState = Some ''rule not found''
   \<and> testAccCheckNewRelicDataPartitionRuleDestroy lookupMisses exampleState
      = Some ''data partition rule still exists: rule not found''"
  by (simp add: testAccCheckNewRelicDataPartitionRuleExists_def exampleState_def
        lookupFinds_def lookupMisses_def)

subsection \<open>The data partition rule resource\<close>

lemma attributesOfRule_ruleOfAttributes [simp]:
  "attributesOfRule (ruleOfAttributes ruleID a) = a"
  by (simp add: attributesOfRule_def ruleOfAttributes_def)

lemma RuleID_ruleOfAttributes [simp]: "RuleID (ruleOfAttributes ruleID a) = ruleID"
  by (simp add: ruleOfAttributes_def)

lemma TargetDataPartition_ruleOfAttributes [simp]:
  "TargetDataPartition (ruleOfAttributes ruleID a) = target_data_partition a"
  by (simp add: ruleOfAttributes_def)

lemma find_appended_rule:
  "ruleID \<notin> set (map RuleID store) \<Longrightarrow> RuleID r = ruleID \<Longrightarrow>
     find (\<lambda>r. RuleID r = ruleID) (store @ [r]) = Some r"
  by (induction store) auto









text \<open>
  C7. Importing the synthetics private location resource by an ID gives, through the
  pass-through importer, exactly one state, whose ID is the given ID (and no error). And
  for a data partition rule that was created under an ID the store did not hold, the
  import by the ID of the state after creation gives that state back, attribute by
  attribute, with no diagnostic.
\<close>

theorem import_round_trips_state:
  "ImportResourceState (resourceNewRelicSyntheticsPrivateLocation sel) meta ident
     = ([\<lparr>Id = ident, attrs = Map.empty, data_schema = privateLocationSchema\<rparr>], None)
   \<and> (newID store \<notin> set (map RuleID store)
        \<and> resourceNewRelicDataPartitionCreate newID store d = (store', d', [])
      \<longrightarrow> importDataPartitionRule store' (dp_Id d') = (d', []))"
proof (intro conjI impI)
  show "ImportResourceState (resourceNewRelicSyntheticsPrivateLocation sel) meta ident
     = ([\<lparr>Id = ident, attrs = Map.empty, data_schema = privateLocationSchema\<rparr>], None)"
    by (simp add: ImportResourceState_def resourceNewRelicSyntheticsPrivateLocation_def
          ImportStatePassthroughContext_def SetId_def)
next
  assume h: "newID store \<notin> set (map RuleID store)
        \<and> resourceNewRelicDataPartitionCreate newID store d = (store', d', [])"
  then have s: "store' = store @ [ruleOfAttributes (newID store) (dp_attrs d)]"
    and d: "d' = d\<lparr>dp_Id := newID store\<rparr>"
    by (auto simp add: resourceNewRelicDataPartitionCreate_def createDataPartitionRule_def
          split: if_splits)
  have "find (\<lambda>r. RuleID r = newID store) store'
          = Some (ruleOfAttributes (newID store) (dp_attrs d))"
    using h s by (simp add: find_appended_rule)
  then show "importDataPartitionRule store' (dp_Id d') = (d', [])"
    using d
    by (simp add: importDataPartitionRule_def resourceNewRelicDataPartitionRead_def
          getDataPartitionByID_def)
qed

theorem import_round_trips_state_witness:
  "ImportResourceState (resourceNewRelicSyntheticsPrivateLocation exampleSelectAccountID)
      (exampleConfig (None, None) (None, None)) ''GUID-1''
     = ([importedData], None)
   \<and> importDataPartitionRule [exampleRule\<lparr>RuleID := ''rule-''\<rparr>] ''rule-''
     = (\<lparr>dp_Id = ''rule-'', dp_attrs = attributesOfRule exampleRule\<rparr>, [])"
  using import_round_trips_state
    [where sel = exampleSelectAccountID and meta = "exampleConfig (None, None) (None, None)"
       and ident = "''GUID-1''" and newID = exampleNewID and store = "[]"
       and d = "\<lparr>dp_Id = '''', dp_attrs = attributesOfRule exampleRule\<rparr>"
       and store' = "[exampleRule\<lparr>RuleID := ''rule-''\<rparr>]"
       and d' = "\<lparr>dp_Id = ''rule-'', dp_attrs = attributesOfRule exampleRule\<rparr>"]
  by (simp add: importedData_def exampleNewID_def resourceNewRelicDataPartitionCreate_def
        createDataPartitionRule_def ruleOfAttributes_def attributesOfRule_def exampleRule_def)

end
